theory Spec2Isabelle
  imports Main "HOL-Library.Word"
begin

section \<open>Values of the host language\<close>

text \<open>
  The client is TypeScript running on Node. The values that the modelled functions read
  are JavaScript values: \<open>JBuf\<close> is a Node \<open>Buffer\<close>, \<open>JObj\<close> a plain object with its
  properties in insertion order, \<open>JNum\<close> an integral number. They are plain data: a
  value has no cycle, and the body of a \<open>'stream'\<close> response is represented by the
  bytes it carries.
\<close>

type_synonym byte = "8 word"

datatype jsval =
    JUndefined
  | JNull
  | JBool bool
  | JNum int
  | JStr string
  | JArr "jsval list"
  | JObj "(string \<times> jsval) list"
  | JBuf "byte list"

text \<open>\<open>typeof v\<close>: \<open>null\<close>, arrays, plain objects and Buffers are all \<open>'object'\<close>.\<close>

fun typeof :: "jsval \<Rightarrow> string" where
  "typeof JUndefined = ''undefined''"
| "typeof JNull = ''object''"
| "typeof (JBool b) = ''boolean''"
| "typeof (JNum n) = ''number''"
| "typeof (JStr s) = ''string''"
| "typeof (JArr vs) = ''object''"
| "typeof (JObj kvs) = ''object''"
| "typeof (JBuf bs) = ''object''"

text \<open>\<open>Buffer.isBuffer(v)\<close>.\<close>

fun isBuffer :: "jsval \<Rightarrow> bool" where
  "isBuffer (JBuf bs) = True"
| "isBuffer v = False"

text \<open>The truth value of \<open>v\<close> in a condition (\<open>if (v)\<close>, \<open>a && b\<close>).\<close>

fun truthy :: "jsval \<Rightarrow> bool" where
  "truthy JUndefined = False"
| "truthy JNull = False"
| "truthy (JBool b) = b"
| "truthy (JNum n) = (n \<noteq> 0)"
| "truthy (JStr s) = (s \<noteq> [])"
| "truthy (JArr vs) = True"
| "truthy (JObj kvs) = True"
| "truthy (JBuf bs) = True"

text \<open>
  What reaches a \<open>catch\<close> block or rejects a promise: a \<open>TypeError\<close> of the runtime, an
  axios error (\<open>isAxiosError\<close> holds; its \<open>response\<close> field is present only when the
  server answered), or anything else.
\<close>

record AxiosResponse =
  resp_status :: nat
  resp_data :: jsval
  resp_headers :: "(string \<times> string) list"

datatype thrown =
    TypeError
  | AxiosError "AxiosResponse option"
  | OtherError

text \<open>
  Property access \<open>v.k\<close> for the property names this code reads (\<open>verifications\<close>,
  \<open>person\<close>, \<open>data\<close>, \<open>headers\<close>, \<open>content-type\<close>): it throws on \<open>null\<close> and
  \<open>undefined\<close>, reads an own property of a plain object, and is \<open>undefined\<close> on every
  other value, none of which has a built-in property of one of these names.
\<close>

fun getProp :: "jsval \<Rightarrow> string \<Rightarrow> thrown + jsval" where
  "getProp JUndefined k = Inl TypeError"
| "getProp JNull k = Inl TypeError"
| "getProp (JObj kvs) k = (case map_of kvs k of None \<Rightarrow> Inr JUndefined | Some v \<Rightarrow> Inr v)"
| "getProp v k = Inr JUndefined"

section \<open>Library functions taken as parameters\<close>

text \<open>
  The functions of Node and of the language that the client calls and that are not part
  of the repository: \<open>crypto.createHmac('sha256', key).update(bytes).digest('hex')\<close>,
  \<open>JSON.stringify\<close> (on values whose \<open>typeof\<close> is \<open>'object'\<close>, where it yields a string),
  the UTF-8 encoding of \<open>Buffer.from(s, 'utf8')\<close>, and \<open>encodeURIComponent\<close> (on
  well-formed strings, where it does not throw).
\<close>

record platform =
  hmac_sha256_hex :: "string \<Rightarrow> byte list \<Rightarrow> string"
  JSON_stringify :: "jsval \<Rightarrow> string"
  utf8 :: "string \<Rightarrow> byte list"
  encodeURIComponent :: "string \<Rightarrow> string"

section \<open>The client state\<close>

record KeyPair =
  apiKey :: string
  sharedSecretKey :: string

text \<open>The defaults of the axios instance that \<open>init\<close> creates.\<close>

record AxiosInstance =
  inst_baseURL :: string
  inst_headers :: "(string \<times> string) list"

text \<open>
  The fields of class \<open>VeriffAPI\<close>. \<open>veriffAPI\<close> is declared without an initial value and
  assigned by \<open>init\<close>: \<open>None\<close> is the unassigned field.
\<close>

record VeriffAPI =
  apiKeyPairs :: "KeyPair list"
  baseUrl :: string
  currentIndex :: nat
  veriffAPI :: "AxiosInstance option"

text \<open>
  \<open>getCurrentKeyPair\<close>: \<open>this.apiKeyPairs[this.currentIndex]\<close>, which is \<open>undefined\<close>
  (\<open>None\<close>) out of range.
\<close>

definition getCurrentKeyPair :: "VeriffAPI \<Rightarrow> KeyPair option" where
  "getCurrentKeyPair st =
     (if currentIndex st < length (apiKeyPairs st)
      then Some (apiKeyPairs st ! currentIndex st) else None)"

text \<open>
  \<open>init\<close>: destructuring \<open>undefined\<close> throws a \<open>TypeError\<close>; otherwise the instance is
  rebuilt with the current pair's \<open>apiKey\<close> as \<open>X-AUTH-CLIENT\<close>. The request interceptor
  that \<open>init\<close> installs is the same closure every time; it is part of
  \<open>veriffAPI_request\<close> below.
\<close>

definition init :: "VeriffAPI \<Rightarrow> thrown + VeriffAPI" where
  "init st =
     (case getCurrentKeyPair st of
        None \<Rightarrow> Inl TypeError
      | Some kp \<Rightarrow>
          Inr (st\<lparr>veriffAPI := Some \<lparr>inst_baseURL = baseUrl st,
                 inst_headers = [(''Content-Type'', ''application/json''),
                                 (''X-AUTH-CLIENT'', apiKey kp)]\<rparr>\<rparr>))"

definition constructor :: "KeyPair list \<Rightarrow> string \<Rightarrow> thrown + VeriffAPI" where
  "constructor pairs url =
     init \<lparr>apiKeyPairs = pairs, baseUrl = url, currentIndex = 0, veriffAPI = None\<rparr>"

text \<open>
  \<open>switchToNextKeyPair\<close>: \<open>(currentIndex + 1) % length\<close>, then \<open>init\<close>. The operands stay
  far below \<open>2^53\<close>, so the arithmetic on doubles is exact. With an empty array the
  remainder is \<open>NaN\<close>, no element is found there and \<open>init\<close> throws.
\<close>

definition switchToNextKeyPair :: "VeriffAPI \<Rightarrow> thrown + VeriffAPI" where
  "switchToNextKeyPair st =
     (if apiKeyPairs st = [] then Inl TypeError
      else init (st\<lparr>currentIndex := (currentIndex st + 1) mod length (apiKeyPairs st)\<rparr>))"

text \<open>Calling \<open>switchToNextKeyPair\<close> \<open>n\<close> times in a row.\<close>

fun rotations :: "nat \<Rightarrow> VeriffAPI \<Rightarrow> thrown + VeriffAPI" where
  "rotations 0 st = Inr st"
| "rotations (Suc n) st =
     (case switchToNextKeyPair st of Inl e \<Rightarrow> Inl e | Inr st' \<Rightarrow> rotations n st')"

section \<open>Signing\<close>

text \<open>
  \<open>extractIdFromUrl\<close>: the first match of
  \<^verbatim>\<open>/\/(?:sessions|attempts|media|address|address-media|transportation-registry)\/([^/]+)/\<close>
  in the URL, and its capture group; the empty string without a match.
\<close>

definition resourcePrefixes :: "string list" where
  "resourcePrefixes =
     [''sessions'', ''attempts'', ''media'', ''address'', ''address-media'',
      ''transportation-registry'']"

definition stripPrefix :: "string \<Rightarrow> string \<Rightarrow> string option" where
  "stripPrefix p s = (if take (length p) s = p then Some (drop (length p) s) else None)"

text \<open>One alternative of the pattern, tried at the head of \<open>s\<close>.\<close>

definition matchAlternative :: "string \<Rightarrow> string \<Rightarrow> string option" where
  "matchAlternative s p =
     (case stripPrefix (CHR ''/'' # p @ ''/'') s of
        None \<Rightarrow> None
      | Some rest \<Rightarrow>
          (if takeWhile (\<lambda>c. c \<noteq> CHR ''/'') rest = [] then None
           else Some (takeWhile (\<lambda>c. c \<noteq> CHR ''/'') rest)))"

fun firstSome :: "('a \<Rightarrow> 'b option) \<Rightarrow> 'a list \<Rightarrow> 'b option" where
  "firstSome f [] = None"
| "firstSome f (x # xs) = (case f x of None \<Rightarrow> firstSome f xs | Some y \<Rightarrow> Some y)"

fun regexMatch :: "string \<Rightarrow> string option" where
  "regexMatch [] = None"
| "regexMatch (c # cs) =
     (case firstSome (matchAlternative (c # cs)) resourcePrefixes of
        None \<Rightarrow> regexMatch cs
      | Some g \<Rightarrow> Some g)"

definition extractIdFromUrl :: "string \<Rightarrow> string" where
  "extractIdFromUrl url = (case regexMatch url of None \<Rightarrow> [] | Some g \<Rightarrow> g)"

text \<open>
  \<open>generateSignature\<close>: the HMAC of the identifier under the current pair's secret;
  \<open>update(id)\<close> encodes the string as UTF-8.
\<close>

definition generateSignature :: "platform \<Rightarrow> VeriffAPI \<Rightarrow> string \<Rightarrow> thrown + string" where
  "generateSignature pf st ident =
     (case getCurrentKeyPair st of
        None \<Rightarrow> Inl TypeError
      | Some kp \<Rightarrow> Inr (hmac_sha256_hex pf (sharedSecretKey kp) (utf8 pf ident)))"

section \<open>Requests\<close>

text \<open>A request as it leaves the client: the instance defaults, the call's own
  configuration, and the signature header that the interceptor adds.\<close>

record request =
  req_baseURL :: string
  req_url :: string
  req_responseType :: string
  req_method :: string
  req_headers :: "(string \<times> string) list"

definition header :: "request \<Rightarrow> string \<Rightarrow> string option" where
  "header r name = map_of (req_headers r) name"

text \<open>
  The upstream server and the network are the environment: \<open>up n r\<close> is what the
  \<open>n\<close>-th request of a call (counted from 0) meets when it is \<open>r\<close>. The promise of
  \<open>veriffAPI.request\<close> resolves with a response or rejects with an error.
\<close>

datatype outcome = Resolved AxiosResponse | Failed thrown

type_synonym upstream = "nat \<Rightarrow> request \<Rightarrow> outcome"

text \<open>
  \<open>this.veriffAPI.request({ url, responseType, method })\<close>. Reading \<open>request\<close> of an
  unassigned field throws; the interceptor signs the identifier of the URL and may throw
  too, in which case nothing is sent. \<open>sent\<close> is the list of requests that have left the
  client during this call, kept to observe the attempts.
\<close>

definition mkRequest :: "AxiosInstance \<Rightarrow> string \<Rightarrow> string \<Rightarrow> string \<Rightarrow> string \<Rightarrow> request" where
  "mkRequest inst url responseType method signature =
     \<lparr>req_baseURL = inst_baseURL inst, req_url = url,
      req_responseType = responseType, req_method = method,
      req_headers = inst_headers inst @ [(''X-HMAC-SIGNATURE'', signature)]\<rparr>"

definition veriffAPI_request ::
  "platform \<Rightarrow> upstream \<Rightarrow> VeriffAPI \<Rightarrow> string \<Rightarrow> string \<Rightarrow> string \<Rightarrow> request list
     \<Rightarrow> outcome \<times> request list" where
  "veriffAPI_request pf up st url responseType method sent =
     (case veriffAPI st of
        None \<Rightarrow> (Failed TypeError, sent)
      | Some inst \<Rightarrow>
          (case generateSignature pf st (extractIdFromUrl url) of
             Inl e \<Rightarrow> (Failed e, sent)
           | Inr signature \<Rightarrow>
               (up (length sent) (mkRequest inst url responseType method signature),
                sent @ [mkRequest inst url responseType method signature])))"

text \<open>
  The condition of the \<open>catch\<close> block:
  \<open>isAxiosError(error) && error.response && error.response.status && error.response.data\<close>.
\<close>

fun isHttpErrorResponse :: "thrown \<Rightarrow> bool" where
  "isHttpErrorResponse (AxiosError (Some r)) = (resp_status r \<noteq> 0 \<and> truthy (resp_data r))"
| "isHttpErrorResponse e = False"

text \<open>The response object that a \<open>'stream'\<close> call returns whole (the fields this code reads).\<close>

definition response_obj :: "AxiosResponse \<Rightarrow> jsval" where
  "response_obj r =
     JObj [(''data'', resp_data r),
           (''status'', JNum (int (resp_status r))),
           (''headers'', JObj (map (\<lambda>(k, v). (k, JStr v)) (resp_headers r)))]"

text \<open>
  The loop of \<open>performRequest\<close>. It may run forever, so the result is an option and
  \<open>None\<close> is a call that never returns. A result is the value returned (\<open>Inr\<close>) or the
  exception thrown (\<open>Inl\<close>), the client state, and the requests sent. Falling out of the
  loop returns \<open>undefined\<close>. The \<open>console.error\<close> calls are not modelled: printing is
  taken to succeed, and so is the \<open>JSON.stringify\<close> of the error body in the message,
  which does not throw on plain data. If \<open>switchToNextKeyPair\<close> throws, the exception
  leaves \<open>performRequest\<close>; this needs an empty pool, with which the loop is not entered.
\<close>

partial_function (option) performRequest_loop ::
  "platform \<Rightarrow> upstream \<Rightarrow> string \<Rightarrow> string \<Rightarrow> string \<Rightarrow> VeriffAPI \<Rightarrow> nat \<Rightarrow> request list
     \<Rightarrow> ((thrown + jsval) \<times> VeriffAPI \<times> request list) option" where
  "performRequest_loop pf up url responseType method st attemptsLeft sent =
     (if attemptsLeft > 0 then
        (case veriffAPI_request pf up st url responseType method sent of
           (Resolved response, sent') \<Rightarrow>
             (if responseType = ''stream'' then Some (Inr (response_obj response), st, sent')
              else Some (Inr (resp_data response), st, sent'))
         | (Failed error, sent') \<Rightarrow>
             (if isHttpErrorResponse error then
                (case switchToNextKeyPair st of
                   Inl e \<Rightarrow> Some (Inl e, st, sent')
                 | Inr st' \<Rightarrow>
                     (if attemptsLeft - 1 = 0 then Some (Inr JNull, st', sent')
                      else performRequest_loop pf up url responseType method st'
                             (attemptsLeft - 1) sent'))
              else performRequest_loop pf up url responseType method st attemptsLeft sent'))
      else Some (Inr JUndefined, st, sent))"

declare performRequest_loop.simps [code]

definition performRequest ::
  "platform \<Rightarrow> upstream \<Rightarrow> VeriffAPI \<Rightarrow> string \<Rightarrow> string \<Rightarrow> string
     \<Rightarrow> ((thrown + jsval) \<times> VeriffAPI \<times> request list) option" where
  "performRequest pf up st url responseType method =
     performRequest_loop pf up url responseType method st (length (apiKeyPairs st)) []"

section \<open>The public operations\<close>

type_synonym result = "((thrown + jsval) \<times> VeriffAPI \<times> request list) option"

text \<open>
  \<open>const response = await this.performRequest(url); return k(response)\<close>: a rejection
  of the awaited promise rejects the operation, and so does an exception in \<open>k\<close>.
\<close>

definition andThen :: "result \<Rightarrow> (jsval \<Rightarrow> thrown + jsval) \<Rightarrow> result" where
  "andThen run k =
     (case run of
        None \<Rightarrow> None
      | Some (Inl e, st, sent) \<Rightarrow> Some (Inl e, st, sent)
      | Some (Inr response, st, sent) \<Rightarrow> Some (k response, st, sent))"

definition getAttemptsForSession :: "platform \<Rightarrow> upstream \<Rightarrow> VeriffAPI \<Rightarrow> string \<Rightarrow> result" where
  "getAttemptsForSession pf up st sessionId =
     andThen (performRequest pf up st (''/sessions/'' @ sessionId @ ''/attempts'') ''json'' ''get'')
       (\<lambda>response. getProp response ''verifications'')"

definition getSessionDecision :: "platform \<Rightarrow> upstream \<Rightarrow> VeriffAPI \<Rightarrow> string \<Rightarrow> result" where
  "getSessionDecision pf up st sessionId =
     performRequest pf up st (''/sessions/'' @ sessionId @ ''/decision'') ''json'' ''get''"

definition getPersonForSession :: "platform \<Rightarrow> upstream \<Rightarrow> VeriffAPI \<Rightarrow> string \<Rightarrow> result" where
  "getPersonForSession pf up st sessionId =
     andThen (performRequest pf up st (''/sessions/'' @ sessionId @ ''/person'') ''json'' ''get'')
       (\<lambda>response. getProp response ''person'')"

definition getMediaForSession :: "platform \<Rightarrow> upstream \<Rightarrow> VeriffAPI \<Rightarrow> string \<Rightarrow> result" where
  "getMediaForSession pf up st sessionId =
     performRequest pf up st (''/sessions/'' @ sessionId @ ''/media'') ''json'' ''get''"

definition getWatchlistScreeningForSession ::
  "platform \<Rightarrow> upstream \<Rightarrow> VeriffAPI \<Rightarrow> string \<Rightarrow> result" where
  "getWatchlistScreeningForSession pf up st sessionId =
     performRequest pf up st (''/sessions/'' @ sessionId @ ''/watchlist-screening'') ''json'' ''get''"

definition getMediaForAttempt :: "platform \<Rightarrow> upstream \<Rightarrow> VeriffAPI \<Rightarrow> string \<Rightarrow> result" where
  "getMediaForAttempt pf up st attemptId =
     performRequest pf up st (''/attempts/'' @ attemptId @ ''/media'') ''json'' ''get''"

text \<open>
  The tail of \<open>getMediaById\<close> and \<open>getAddressMediaById\<close>:
  \<open>if (response) { return { media: response.data,
  contentType: response.headers['content-type'] } }\<close>, and \<open>undefined\<close> otherwise.
\<close>

definition mediaWithContentType :: "jsval \<Rightarrow> thrown + jsval" where
  "mediaWithContentType response =
     (if truthy response then
        (case getProp response ''data'' of
           Inl e \<Rightarrow> Inl e
         | Inr media \<Rightarrow>
             (case getProp response ''headers'' of
                Inl e \<Rightarrow> Inl e
              | Inr hs \<Rightarrow>
                  (case getProp hs ''content-type'' of
                     Inl e \<Rightarrow> Inl e
                   | Inr contentType \<Rightarrow>
                       Inr (JObj [(''media'', media), (''contentType'', contentType)]))))
      else Inr JUndefined)"

definition getMediaById :: "platform \<Rightarrow> upstream \<Rightarrow> VeriffAPI \<Rightarrow> string \<Rightarrow> result" where
  "getMediaById pf up st mediaId =
     andThen (performRequest pf up st (''/media/'' @ mediaId) ''stream'' ''get'')
       mediaWithContentType"

definition getINEDataForSession ::
  "platform \<Rightarrow> upstream \<Rightarrow> VeriffAPI \<Rightarrow> string \<Rightarrow> string \<Rightarrow> result" where
  "getINEDataForSession pf up st sessionId version =
     performRequest pf up st
       (''/sessions/'' @ sessionId @ ''/decision/ine-registry?version=''
          @ encodeURIComponent pf version) ''json'' ''get''"

definition getCurpRegistryData ::
  "platform \<Rightarrow> upstream \<Rightarrow> VeriffAPI \<Rightarrow> string \<Rightarrow> string \<Rightarrow> result" where
  "getCurpRegistryData pf up st sessionId version =
     performRequest pf up st
       (''/sessions/'' @ sessionId @ ''/decision/curp-registry?version=''
          @ encodeURIComponent pf version) ''json'' ''get''"

definition getAddressMedia :: "platform \<Rightarrow> upstream \<Rightarrow> VeriffAPI \<Rightarrow> string \<Rightarrow> result" where
  "getAddressMedia pf up st addressId =
     performRequest pf up st (''/address/'' @ addressId @ ''/media'') ''json'' ''get''"

definition getAddressMediaById :: "platform \<Rightarrow> upstream \<Rightarrow> VeriffAPI \<Rightarrow> string \<Rightarrow> result" where
  "getAddressMediaById pf up st mediaId =
     andThen (performRequest pf up st (''/address-media/'' @ mediaId) ''stream'' ''get'')
       mediaWithContentType"

text \<open>A call of one of the public operations that go upstream, with its arguments.\<close>

datatype call =
    GetAttemptsForSession string
  | GetSessionDecision string
  | GetPersonForSession string
  | GetMediaForSession string
  | GetWatchlistScreeningForSession string
  | GetMediaForAttempt string
  | GetMediaById string
  | GetINEDataForSession string string
  | GetCurpRegistryData string string
  | GetAddressMedia string
  | GetAddressMediaById string

fun invoke :: "platform \<Rightarrow> upstream \<Rightarrow> VeriffAPI \<Rightarrow> call \<Rightarrow> result" where
  "invoke pf up st (GetAttemptsForSession sessionId) = getAttemptsForSession pf up st sessionId"
| "invoke pf up st (GetSessionDecision sessionId) = getSessionDecision pf up st sessionId"
| "invoke pf up st (GetPersonForSession sessionId) = getPersonForSession pf up st sessionId"
| "invoke pf up st (GetMediaForSession sessionId) = getMediaForSession pf up st sessionId"
| "invoke pf up st (GetWatchlistScreeningForSession sessionId) =
     getWatchlistScreeningForSession pf up st sessionId"
| "invoke pf up st (GetMediaForAttempt attemptId) = getMediaForAttempt pf up st attemptId"
| "invoke pf up st (GetMediaById mediaId) = getMediaById pf up st mediaId"
| "invoke pf up st (GetINEDataForSession sessionId version) =
     getINEDataForSession pf up st sessionId version"
| "invoke pf up st (GetCurpRegistryData sessionId version) =
     getCurpRegistryData pf up st sessionId version"
| "invoke pf up st (GetAddressMedia addressId) = getAddressMedia pf up st addressId"
| "invoke pf up st (GetAddressMediaById mediaId) = getAddressMediaById pf up st mediaId"

section \<open>Webhook signatures\<close>

text \<open>
  \<open>Buffer.from(payload, 'utf8')\<close>, reached only with a payload whose \<open>typeof\<close> is not
  \<open>'object'\<close>: a string is encoded, and \<open>undefined\<close>, a boolean or a number is a
  \<open>TypeError\<close>.
\<close>

fun bufferFrom :: "platform \<Rightarrow> jsval \<Rightarrow> thrown + byte list" where
  "bufferFrom pf (JStr s) = Inr (utf8 pf s)"
| "bufferFrom pf (JBuf bs) = Inr bs"
| "bufferFrom pf v = Inl TypeError"

text \<open>The \<open>for\<close> loop over \<open>this.apiKeyPairs\<close>, returning at the first digest that matches.\<close>

fun anyDigestMatches :: "platform \<Rightarrow> KeyPair list \<Rightarrow> byte list \<Rightarrow> string \<Rightarrow> bool" where
  "anyDigestMatches pf [] payload signature = False"
| "anyDigestMatches pf (apiKeyPair # rest) payload signature =
     (if hmac_sha256_hex pf (sharedSecretKey apiKeyPair) payload = signature then True
      else anyDigestMatches pf rest payload signature)"

definition stringifyIfObject :: "platform \<Rightarrow> jsval \<Rightarrow> jsval" where
  "stringifyIfObject pf payload =
     (if typeof payload = ''object'' then JStr (JSON_stringify pf payload) else payload)"

definition toBuffer :: "platform \<Rightarrow> jsval \<Rightarrow> thrown + byte list" where
  "toBuffer pf payload =
     (if \<not> isBuffer payload then bufferFrom pf payload
      else (case payload of JBuf bs \<Rightarrow> Inr bs | _ \<Rightarrow> Inl TypeError))"

definition isSignatureValid :: "platform \<Rightarrow> VeriffAPI \<Rightarrow> string \<Rightarrow> jsval \<Rightarrow> thrown + bool" where
  "isSignatureValid pf st signature payload =
     (case toBuffer pf (stringifyIfObject pf payload) of
        Inl e \<Rightarrow> Inl e
      | Inr bytes \<Rightarrow> Inr (anyDigestMatches pf (apiKeyPairs st) bytes signature))"

text \<open>
  The canonical bytes of a payload in the words of the specification (section 4.1): a
  structured payload is stringified and then encoded, a string is encoded, and raw bytes
  are taken as they arrived. This definition follows the specification, not the code;
  it is what \<open>isSignatureValid\<close> is compared with.
\<close>

fun canonicalBytes_spec :: "platform \<Rightarrow> jsval \<Rightarrow> byte list option" where
  "canonicalBytes_spec pf (JBuf bs) = Some bs"
| "canonicalBytes_spec pf (JStr s) = Some (utf8 pf s)"
| "canonicalBytes_spec pf (JObj kvs) = Some (utf8 pf (JSON_stringify pf (JObj kvs)))"
| "canonicalBytes_spec pf (JArr vs) = Some (utf8 pf (JSON_stringify pf (JArr vs)))"
| "canonicalBytes_spec pf JNull = Some (utf8 pf (JSON_stringify pf JNull))"
| "canonicalBytes_spec pf v = None"

section \<open>The session aggregator\<close>

datatype 'a PromiseSettledResult = Fulfilled 'a | Rejected thrown

text \<open>
  The promise of a client call ends fulfilled or rejected, or never settles
  (\<open>None\<close>). The calls of one batch share the client and interleave at every
  \<open>await\<close>, in an order that the arrival of the responses decides; so the aggregator is
  modelled over the final state \<open>run c\<close> of the promise of each call \<open>c\<close> it makes.
\<close>

type_synonym promises = "call \<Rightarrow> jsval PromiseSettledResult option"


text \<open>\<open>await Promise.allSettled(ps)\<close>: continues once every promise has settled.\<close>

fun allSettled :: "'a PromiseSettledResult option list \<Rightarrow> 'a PromiseSettledResult list option" where
  "allSettled [] = Some []"
| "allSettled (p # ps) =
     (case p of
        None \<Rightarrow> None
      | Some r \<Rightarrow> (case allSettled ps of None \<Rightarrow> None | Some rs \<Rightarrow> Some (r # rs)))"

fun extractValue :: "jsval PromiseSettledResult \<Rightarrow> jsval" where
  "extractValue (Fulfilled v) = v"
| "extractValue (Rejected reason) = JNull"

text \<open>An element of an array destructuring: \<open>undefined\<close> past the end.\<close>

definition element :: "jsval list \<Rightarrow> nat \<Rightarrow> jsval" where
  "element vs i = (if i < length vs then vs ! i else JUndefined)"

record SessionData =
  sessionDecision :: jsval
  personInfo :: jsval
  mediaList :: jsval
  watchlistScreening :: jsval
  ineData :: jsval
  curpData :: jsval
  attempts :: jsval

text \<open>The calls of the batch, in the order of the array literal.\<close>

definition sessionCalls :: "string \<Rightarrow> string \<Rightarrow> call list" where
  "sessionCalls sessionId version =
     [GetSessionDecision sessionId,
      GetPersonForSession sessionId,
      GetMediaForSession sessionId,
      GetWatchlistScreeningForSession sessionId,
      GetINEDataForSession sessionId version,
      GetCurpRegistryData sessionId version,
      GetAttemptsForSession sessionId]"

text \<open>
  The result is the final state of the promise that the \<open>async\<close> function returns:
  \<open>None\<close> while \<open>allSettled\<close> is pending, \<open>Inr\<close> the record it resolves with, \<open>Inl\<close> an
  exception.
\<close>

definition getRelavantSessionData ::
  "promises \<Rightarrow> string \<Rightarrow> string \<Rightarrow> (thrown + SessionData) option" where
  "getRelavantSessionData run sessionId version =
     (case allSettled (map run (sessionCalls sessionId version)) of
        None \<Rightarrow> None
      | Some data \<Rightarrow>
          Some (Inr \<lparr>sessionDecision = element (map extractValue data) 0,
                     personInfo = element (map extractValue data) 1,
                     mediaList = element (map extractValue data) 2,
                     watchlistScreening = element (map extractValue data) 3,
                     ineData = element (map extractValue data) 4,
                     curpData = element (map extractValue data) 5,
                     attempts = element (map extractValue data) 6\<rparr>))"

section \<open>Client states that can arise\<close>

text \<open>
  A client is well formed when its index denotes a pair and its axios instance is the one
  \<open>init\<close> builds for that pair. Every state that can arise is well formed
  (\<open>reachable_wf\<close> below).
\<close>

definition wf_client :: "VeriffAPI \<Rightarrow> bool" where
  "wf_client st \<longleftrightarrow> currentIndex st < length (apiKeyPairs st) \<and> init st = Inr st"

text \<open>The client \<open>st\<close> with its cursor moved to pair \<open>j\<close> and the instance built for it.\<close>

definition withIndex :: "VeriffAPI \<Rightarrow> nat \<Rightarrow> VeriffAPI" where
  "withIndex st j =
     st\<lparr>currentIndex := j,
        veriffAPI := Some \<lparr>inst_baseURL = baseUrl st,
          inst_headers = [(''Content-Type'', ''application/json''),
                          (''X-AUTH-CLIENT'', apiKey (apiKeyPairs st ! j))]\<rparr>\<rparr>"

text \<open>The request that such a client sends: identified by pair \<open>j\<close>, signed with its secret.\<close>

definition requestWith ::
  "platform \<Rightarrow> VeriffAPI \<Rightarrow> nat \<Rightarrow> string \<Rightarrow> string \<Rightarrow> string \<Rightarrow> request" where
  "requestWith pf st j url responseType method =
     mkRequest
       \<lparr>inst_baseURL = baseUrl st,
        inst_headers = [(''Content-Type'', ''application/json''),
                        (''X-AUTH-CLIENT'', apiKey (apiKeyPairs st ! j))]\<rparr>
       url responseType method
       (hmac_sha256_hex pf (sharedSecretKey (apiKeyPairs st ! j)) (utf8 pf (extractIdFromUrl url)))"

text \<open>
  The states a client can be in: the one the constructor returns, and every state that a
  rotation, a \<open>performRequest\<close> or a public operation leaves behind. The remaining
  methods (\<open>getCurrentKeyPair\<close>, \<open>generateSignature\<close>, \<open>extractIdFromUrl\<close>,
  \<open>isSignatureValid\<close>) do not assign any field.
\<close>

inductive reachable :: "VeriffAPI \<Rightarrow> bool" where
  constructed: "constructor pairs url = Inr st \<Longrightarrow> reachable st"
| rotated: "reachable st \<Longrightarrow> switchToNextKeyPair st = Inr st' \<Longrightarrow> reachable st'"
| requested:
    "reachable st \<Longrightarrow> performRequest pf up st url responseType method = Some (r, st', sent)
       \<Longrightarrow> reachable st'"
| invoked: "reachable st \<Longrightarrow> invoke pf up st c = Some (r, st', sent) \<Longrightarrow> reachable st'"

section \<open>A platform for concrete runs\<close>

text \<open>
  The theorems below hold for every platform. Where a concrete run is shown, it uses
  this stand-in: the digest is the key followed by the message, so that it tells
  different messages apart; the encoding is one byte per character, which is UTF-8 on
  ASCII; \<open>demo_stringify\<close> writes compact JSON for values that hold no \<open>undefined\<close>
  and whose strings need no escaping, and a Buffer as its \<open>toJSON\<close> form
  \<open>{"type":"Buffer","data":[...]}\<close>.
\<close>

fun showNat :: "nat \<Rightarrow> string" where
  "showNat n =
     (if n < 10 then [char_of (48 + n)]
      else showNat (n div 10) @ [char_of (48 + n mod 10)])"

fun commaSep :: "string list \<Rightarrow> string" where
  "commaSep [] = []"
| "commaSep [s] = s"
| "commaSep (s # t # ss) = s @ '','' @ commaSep (t # ss)"

definition quoted :: "string \<Rightarrow> string" where
  "quoted s = CHR 0x22 # s @ [CHR 0x22]"

fun demo_stringify :: "jsval \<Rightarrow> string" where
  "demo_stringify JUndefined = ''null''"
| "demo_stringify JNull = ''null''"
| "demo_stringify (JBool b) = (if b then ''true'' else ''false'')"
| "demo_stringify (JNum n) = (if n < 0 then ''-'' @ showNat (nat (- n)) else showNat (nat n))"
| "demo_stringify (JStr s) = quoted s"
| "demo_stringify (JArr vs) = ''['' @ commaSep (map demo_stringify vs) @ '']''"
| "demo_stringify (JObj kvs) =
     ''{'' @ commaSep (map (\<lambda>kv. quoted (fst kv) @ '':'' @ demo_stringify (snd kv)) kvs) @ ''}''"
| "demo_stringify (JBuf bs) =
     ''{'' @ quoted ''type'' @ '':'' @ quoted ''Buffer'' @ '','' @ quoted ''data'' @ '':[''
       @ commaSep (map (\<lambda>b. showNat (unat b)) bs) @ '']}''"

definition demo_platform :: platform where
  "demo_platform =
     \<lparr>hmac_sha256_hex = (\<lambda>key msg. key @ '':'' @ map (\<lambda>b. char_of (unat b)) msg),
      JSON_stringify = demo_stringify,
      utf8 = map (\<lambda>c. of_nat (of_char c)),
      encodeURIComponent = (\<lambda>s. s)\<rparr>"

text \<open>
  A pool of two pairs, the client that the constructor returns for it, and an upstream
  answer with an error status and a body.
\<close>

definition demo_pairs :: "KeyPair list" where
  "demo_pairs =
     [\<lparr>apiKey = ''k1'', sharedSecretKey = ''s1''\<rparr>, \<lparr>apiKey = ''k2'', sharedSecretKey = ''s2''\<rparr>]"

definition demo_client :: VeriffAPI where
  "demo_client =
     \<lparr>apiKeyPairs = demo_pairs, baseUrl = ''https://api.example'', currentIndex = 0,
      veriffAPI = Some \<lparr>inst_baseURL = ''https://api.example'',
        inst_headers = [(''Content-Type'', ''application/json''), (''X-AUTH-CLIENT'', ''k1'')]\<rparr>\<rparr>"

definition demo_http_error :: "nat \<Rightarrow> outcome" where
  "demo_http_error code =
     Failed (AxiosError (Some \<lparr>resp_status = code,
       resp_data = JObj [(''status'', JStr ''fail'')], resp_headers = []\<rparr>))"

text \<open>
  A decision, and an upstream that rejects the first pair with status 401 and serves the
  decision under every other one.
\<close>

definition demo_decision :: jsval where
  "demo_decision =
     JObj [(''status'', JStr ''success''), (''verification'', JObj [(''code'', JNum 9001)])]"

definition demo_failover :: upstream where
  "demo_failover n r =
     (if header r ''X-AUTH-CLIENT'' = Some ''k1'' then demo_http_error 401
      else Resolved \<lparr>resp_status = 200, resp_data = demo_decision, resp_headers = []\<rparr>)"

text \<open>The body \<open>{"id":"addr-123"}\<close> of a webhook.\<close>

definition demo_body :: string where
  "demo_body = ''{'' @ quoted ''id'' @ '':'' @ quoted ''addr-123'' @ ''}''"




section \<open>Rotation\<close>

lemma init_in_range:
  "currentIndex st < length (apiKeyPairs st) \<Longrightarrow> init st = Inr (withIndex st (currentIndex st))"
  by (simp add: init_def getCurrentKeyPair_def withIndex_def)

lemma wf_client_iff:
  "wf_client st \<longleftrightarrow>
     currentIndex st < length (apiKeyPairs st) \<and> withIndex st (currentIndex st) = st"
  by (auto simp: wf_client_def init_in_range)

lemma withIndex_fields [simp]:
  "apiKeyPairs (withIndex st j) = apiKeyPairs st"
  "baseUrl (withIndex st j) = baseUrl st"
  "currentIndex (withIndex st j) = j"
  by (simp_all add: withIndex_def)

lemma withIndex_withIndex [simp]: "withIndex (withIndex st j) k = withIndex st k"
  by (simp add: withIndex_def)

lemma wf_withIndex: "j < length (apiKeyPairs st) \<Longrightarrow> wf_client (withIndex st j)"
  by (simp add: wf_client_iff)

lemma constructor_demo: "constructor demo_pairs ''https://api.example'' = Inr demo_client"
  by (simp add: constructor_def init_def getCurrentKeyPair_def demo_pairs_def demo_client_def)


lemma switch_withIndex:
  "apiKeyPairs st \<noteq> [] \<Longrightarrow>
   switchToNextKeyPair st =
     Inr (withIndex st ((currentIndex st + 1) mod length (apiKeyPairs st)))"
  by (simp add: switchToNextKeyPair_def init_def getCurrentKeyPair_def withIndex_def)

lemma rotations_withIndex:
  "apiKeyPairs st \<noteq> [] \<Longrightarrow> 0 < n \<Longrightarrow>
   rotations n st = Inr (withIndex st ((currentIndex st + n) mod length (apiKeyPairs st)))"
proof (induction n arbitrary: st)
  case 0
  then show ?case by simp
next
  case (Suc n)
  show ?case
  proof (cases "n = 0")
    case True
    with Suc.prems show ?thesis by (simp add: switch_withIndex)
  next
    case False
    with Suc.prems Suc.IH[of "withIndex st ((currentIndex st + 1) mod length (apiKeyPairs st))"]
    show ?thesis by (simp add: switch_withIndex mod_simps)
  qed
qed


text \<open>
  C6: in a pool of \<open>N \<ge> 1\<close> pairs, one rotation moves the cursor to
  \<open>(currentIndex + 1) mod N\<close>, two rotations move it to \<open>(currentIndex + 2) mod N\<close>, and
  \<open>N\<close> rotations bring it back to where it was.
\<close>

theorem rotation_advances_and_cycles:
  assumes "currentIndex st < length (apiKeyPairs st)"
  shows "\<exists>st1 st2 stN.
     switchToNextKeyPair st = Inr st1
     \<and> currentIndex st1 = (currentIndex st + 1) mod length (apiKeyPairs st)
     \<and> rotations 2 st = Inr st2
     \<and> currentIndex st2 = (currentIndex st + 2) mod length (apiKeyPairs st)
     \<and> rotations (length (apiKeyPairs st)) st = Inr stN
     \<and> currentIndex stN = currentIndex st"
proof -
  from assms have ne: "apiKeyPairs st \<noteq> []" and pos: "0 < length (apiKeyPairs st)" by auto
  show ?thesis
    using switch_withIndex[OF ne] rotations_withIndex[OF ne, of 2]
      rotations_withIndex[OF ne pos] assms
    by simp
qed

theorem rotation_advances_and_cycles_witness:
  "currentIndex (withIndex demo_client 1) < length (apiKeyPairs (withIndex demo_client 1))
   \<and> (\<exists>st1 st2 stN.
        switchToNextKeyPair (withIndex demo_client 1) = Inr st1 \<and> currentIndex st1 = 0
        \<and> rotations 2 (withIndex demo_client 1) = Inr st2 \<and> currentIndex st2 = 1
        \<and> rotations 2 (withIndex demo_client 1) = Inr stN \<and> currentIndex stN = 1)"
proof -
  have len: "length (apiKeyPairs demo_client) = 2"
    by (simp add: demo_client_def demo_pairs_def)
  have lt: "currentIndex (withIndex demo_client 1) < length (apiKeyPairs (withIndex demo_client 1))"
    by (simp add: len)
  have "(1 + 1) mod 2 = (0::nat)" "(1 + 2) mod 2 = (1::nat)" by simp_all
  with rotation_advances_and_cycles[OF lt] lt show ?thesis
    by (simp only: withIndex_fields len) 
qed

section \<open>A call that every pair fails\<close>

lemma request_withIndex:
  "j < length (apiKeyPairs st) \<Longrightarrow>
   veriffAPI_request pf up (withIndex st j) url rt m sent =
     (up (length sent) (requestWith pf st j url rt m), sent @ [requestWith pf st j url rt m])"
  by (simp add: veriffAPI_request_def generateSignature_def getCurrentKeyPair_def
      withIndex_def requestWith_def)












section \<open>The cursor stays in range\<close>

lemma switch_preserves_wf:
  "wf_client st \<Longrightarrow> switchToNextKeyPair st = Inr st' \<Longrightarrow> wf_client st'"
proof -
  assume wf: "wf_client st" and sw: "switchToNextKeyPair st = Inr st'"
  from wf have ne: "apiKeyPairs st \<noteq> []" by (auto simp: wf_client_iff)
  then have "(currentIndex st + 1) mod length (apiKeyPairs st) < length (apiKeyPairs st)"
    by (intro mod_less_divisor) auto
  with sw switch_withIndex[OF ne] show ?thesis by (auto intro: wf_withIndex)
qed

lemma loop_preserves_wf:
  assumes run: "performRequest_loop pf up url rt m st a sent = Some res"
  shows "wf_client st \<longrightarrow> wf_client (fst (snd res))"
  apply (rule performRequest_loop.raw_induct[where
        P = "\<lambda>pf up url rt m st a sent res. wf_client st \<longrightarrow> wf_client (fst (snd res))",
        OF _ run])
  apply (intro impI)
  subgoal premises prems for f pf up url rt m st a sent res
    using prems(2,3) prems(1) switch_preserves_wf[OF prems(3)]
    by (auto split: if_splits prod.splits outcome.splits sum.splits)
  done

lemma performRequest_preserves_wf:
  "performRequest pf up st url rt m = Some (r, st', sent) \<Longrightarrow> wf_client st \<Longrightarrow> wf_client st'"
  using loop_preserves_wf[of pf up url rt m st "length (apiKeyPairs st)" "[]" "(r, st', sent)"]
  by (simp add: performRequest_def)

lemma andThen_state:
  "andThen run k = Some (r, st', sent) \<Longrightarrow> \<exists>r'. run = Some (r', st', sent)"
  by (auto simp: andThen_def split: option.splits sum.splits prod.splits)

lemma invoke_preserves_wf:
  "invoke pf up st c = Some (r, st', sent) \<Longrightarrow> wf_client st \<Longrightarrow> wf_client st'"
  by (cases c)
    (auto simp: getAttemptsForSession_def getSessionDecision_def getPersonForSession_def
      getMediaForSession_def getWatchlistScreeningForSession_def getMediaForAttempt_def
      getMediaById_def getINEDataForSession_def getCurpRegistryData_def getAddressMedia_def
      getAddressMediaById_def
      dest!: andThen_state dest: performRequest_preserves_wf)

lemma constructor_wf: "constructor pairs url = Inr st \<Longrightarrow> wf_client st"
  by (auto simp: constructor_def init_def getCurrentKeyPair_def wf_client_def split: if_splits)

lemma reachable_wf: "reachable st \<Longrightarrow> wf_client st"
  by (induction rule: reachable.induct)
    (auto intro: constructor_wf switch_preserves_wf performRequest_preserves_wf
      invoke_preserves_wf)

text \<open>
  C7: in the state that the constructor returns, and in every state that a rotation, a
  \<open>performRequest\<close> or a public operation leaves behind, the pool is not empty, the
  cursor is below the pool size, and \<open>getCurrentKeyPair\<close> yields the pair at the
  cursor.
\<close>

theorem active_index_always_valid:
  assumes "reachable st"
  shows "apiKeyPairs st \<noteq> []
     \<and> currentIndex st < length (apiKeyPairs st)
     \<and> getCurrentKeyPair st = Some (apiKeyPairs st ! currentIndex st)"
  using reachable_wf[OF assms] by (auto simp: wf_client_def getCurrentKeyPair_def)

theorem active_index_always_valid_witness:
  "reachable demo_client
   \<and> currentIndex demo_client < length (apiKeyPairs demo_client)
   \<and> getCurrentKeyPair demo_client = Some \<lparr>apiKey = ''k1'', sharedSecretKey = ''s1''\<rparr>"
proof -
  have r: "reachable demo_client"
    by (rule reachable.constructed[OF constructor_demo])
  have "apiKeyPairs demo_client ! currentIndex demo_client
          = \<lparr>apiKey = ''k1'', sharedSecretKey = ''s1''\<rparr>"
    by (simp add: demo_client_def demo_pairs_def)
  with active_index_always_valid[OF r] r show ?thesis by simp
qed

section \<open>Failing over to the second pair\<close>

lemma header_requestWith [simp]:
  "header (requestWith pf st j url rt m) ''X-AUTH-CLIENT'' = Some (apiKey (apiKeyPairs st ! j))"
  by (simp add: requestWith_def mkRequest_def header_def)

lemma constructor_withIndex:
  "pairs \<noteq> [] \<Longrightarrow>
   constructor pairs url =
     Inr (withIndex \<lparr>apiKeyPairs = pairs, baseUrl = url, currentIndex = 0, veriffAPI = None\<rparr> 0)"
  by (simp add: constructor_def init_in_range)

text \<open>
  C9: a client built over the pool \<open>[{k1, s1}, {k2, s2}]\<close> starts at the first pair. If
  the upstream answers every request made under \<open>k1\<close> with a 401 error response that has
  a body, and every request made under \<open>k2\<close> with a response carrying the decision, then
  \<open>getSessionDecision\<close> returns the decision after one request under each key, and the
  cursor is left at index 1, the pair \<open>{k2, s2}\<close>.
\<close>

theorem getSessionDecision_fails_over:
  assumes built: "constructor [\<lparr>apiKey = k1, sharedSecretKey = s1\<rparr>,
                               \<lparr>apiKey = k2, sharedSecretKey = s2\<rparr>] url = Inr st"
    and fails: "\<forall>n r. header r ''X-AUTH-CLIENT'' = Some k1 \<longrightarrow>
        (\<exists>resp. up n r = Failed (AxiosError (Some resp))
           \<and> resp_status resp = 401 \<and> truthy (resp_data resp))"
    and succeeds: "\<forall>n r. header r ''X-AUTH-CLIENT'' = Some k2 \<longrightarrow>
        (\<exists>resp. up n r = Resolved resp \<and> resp_data resp = decisionValue)"
  shows "\<exists>st' sent.
     getSessionDecision pf up st sessionId = Some (Inr decisionValue, st', sent)
     \<and> currentIndex st' = 1
     \<and> getCurrentKeyPair st' = Some \<lparr>apiKey = k2, sharedSecretKey = s2\<rparr>
     \<and> map (\<lambda>r. header r ''X-AUTH-CLIENT'') sent = [Some k1, Some k2]"
proof -
  let ?pairs = "[\<lparr>apiKey = k1, sharedSecretKey = s1\<rparr>, \<lparr>apiKey = k2, sharedSecretKey = s2\<rparr>]"
  let ?st0 = "\<lparr>apiKeyPairs = ?pairs, baseUrl = url, currentIndex = 0, veriffAPI = None\<rparr>"
  let ?url = "''/sessions/'' @ sessionId @ ''/decision''"
  let ?r1 = "requestWith pf ?st0 0 ?url ''json'' ''get''"
  let ?r2 = "requestWith pf ?st0 1 ?url ''json'' ''get''"
  from built have st: "st = withIndex ?st0 0"
    using constructor_withIndex[of ?pairs url] by simp
  have h1: "header ?r1 ''X-AUTH-CLIENT'' = Some k1" by simp
  have h2: "header ?r2 ''X-AUTH-CLIENT'' = Some k2" by simp
  from fails h1 obtain resp1 where r1: "up 0 ?r1 = Failed (AxiosError (Some resp1))"
    "resp_status resp1 = 401" "truthy (resp_data resp1)"
    by blast
  from succeeds h2 obtain resp2
    where r2: "up 1 ?r2 = Resolved resp2" "resp_data resp2 = decisionValue"
    by blast
  have sw: "switchToNextKeyPair (withIndex ?st0 0) = Inr (withIndex ?st0 1)"
    by (simp add: switch_withIndex)
  have second: "performRequest_loop pf up ?url ''json'' ''get'' (withIndex ?st0 1) 1 [?r1] =
      Some (Inr decisionValue, withIndex ?st0 1, [?r1, ?r2])"
    using r2 by (subst performRequest_loop.simps) (simp add: request_withIndex)
  have first: "performRequest_loop pf up ?url ''json'' ''get'' (withIndex ?st0 0) 2 [] =
      performRequest_loop pf up ?url ''json'' ''get'' (withIndex ?st0 1) 1 [?r1]"
    using r1 sw by (subst performRequest_loop.simps) (simp add: request_withIndex)
  have run: "getSessionDecision pf up st sessionId =
      Some (Inr decisionValue, withIndex ?st0 1, [?r1, ?r2])"
  proof -
    have len: "length (apiKeyPairs (withIndex ?st0 0)) = 2" by simp
    show ?thesis
      by (simp only: getSessionDecision_def performRequest_def st len first second)
  qed
  show ?thesis unfolding run
    by (simp add: getCurrentKeyPair_def)
qed

theorem getSessionDecision_fails_over_witness:
  "\<exists>st' sent.
     getSessionDecision demo_platform demo_failover demo_client ''abc''
       = Some (Inr demo_decision, st', sent)
     \<and> currentIndex st' = 1
     \<and> getCurrentKeyPair st' = Some \<lparr>apiKey = ''k2'', sharedSecretKey = ''s2''\<rparr>
     \<and> map (\<lambda>r. header r ''X-AUTH-CLIENT'') sent = [Some ''k1'', Some ''k2'']"
proof -
  have fails: "\<forall>n r. header r ''X-AUTH-CLIENT'' = Some ''k1'' \<longrightarrow>
        (\<exists>resp. demo_failover n r = Failed (AxiosError (Some resp))
           \<and> resp_status resp = 401 \<and> truthy (resp_data resp))"
    by (simp add: demo_failover_def demo_http_error_def)
  have succeeds: "\<forall>n r. header r ''X-AUTH-CLIENT'' = Some ''k2'' \<longrightarrow>
        (\<exists>resp. demo_failover n r = Resolved resp \<and> resp_data resp = demo_decision)"
    by (simp add: demo_failover_def)
  show ?thesis
    by (rule getSessionDecision_fails_over
        [OF constructor_demo[unfolded demo_pairs_def] fails succeeds])
qed

section \<open>A call that meets a transport fault\<close>

lemma request_under_fault:
  assumes "\<forall>n r. \<exists>e. up n r = Failed e \<and> \<not> isHttpErrorResponse e"
  shows "\<exists>e sent'. veriffAPI_request pf up st url rt m sent = (Failed e, sent')
           \<and> \<not> isHttpErrorResponse e"
proof (cases "veriffAPI st")
  case None
  then show ?thesis by (simp add: veriffAPI_request_def)
next
  case (Some inst)
  show ?thesis
  proof (cases "generateSignature pf st (extractIdFromUrl url)")
    case (Inl e)
    then have "e = TypeError" by (auto simp: generateSignature_def split: option.splits)
    with Inl Some show ?thesis by (simp add: veriffAPI_request_def)
  next
    case (Inr sg)
    with Some assms show ?thesis by (simp add: veriffAPI_request_def)
  qed
qed

text \<open>
  When no request ever meets an HTTP error response or a response, the \<open>else\<close> branch
  of the \<open>catch\<close> block runs every time; it neither returns nor decrements
  \<open>attemptsLeft\<close>, so the loop can only have returned if it was never entered.
\<close>

lemma loop_returns_only_without_attempts:
  assumes run: "performRequest_loop pf up url rt m st a sent = Some res"
  shows "(\<forall>n r. \<exists>e. up n r = Failed e \<and> \<not> isHttpErrorResponse e) \<longrightarrow> a = 0"
  apply (rule performRequest_loop.raw_induct[where
        P = "\<lambda>pf up url rt m st a sent res.
               (\<forall>n r. \<exists>e. up n r = Failed e \<and> \<not> isHttpErrorResponse e) \<longrightarrow> a = 0",
        OF _ run])
  apply (intro impI)
  subgoal premises prems for f pf up url rt m st a sent res
    using request_under_fault[OF prems(3), of pf st url rt m sent] prems(1,2,3)
    by (auto split: if_splits)
  done

text \<open>
  C1 (the code departs from the claim): with a non-empty pool and an upstream on which
  every request fails in a way that the \<open>catch\<close> block does not take for an HTTP error
  response (a transport fault: an axios error with no response), \<open>performRequest\<close>
  never returns. It yields no failure outcome; it sends the request again and again
  under the same pair.
\<close>

theorem performRequest_transport_fault_never_returns:
  assumes "apiKeyPairs st \<noteq> []"
    and "\<forall>n r. \<exists>e. up n r = Failed e \<and> \<not> isHttpErrorResponse e"
  shows "performRequest pf up st url responseType method = None"
proof (cases "performRequest pf up st url responseType method")
  case None
  then show ?thesis .
next
  case (Some res)
  then have "length (apiKeyPairs st) = 0"
    using loop_returns_only_without_attempts[of pf up url responseType "method" st
        "length (apiKeyPairs st)" "[]" res] assms(2)
    by (simp add: performRequest_def)
  with assms(1) show ?thesis by simp
qed

theorem performRequest_transport_fault_never_returns_witness:
  "apiKeyPairs demo_client \<noteq> []
   \<and> (\<forall>n r. \<exists>e. (\<lambda>n r. Failed (AxiosError None)) n r = Failed e \<and> \<not> isHttpErrorResponse e)
   \<and> performRequest demo_platform (\<lambda>n r. Failed (AxiosError None)) demo_client
        ''/sessions/abc/decision'' ''json'' ''get'' = None"
proof -
  have ne: "apiKeyPairs demo_client \<noteq> []" by (simp add: demo_client_def demo_pairs_def)
  have fault:
    "\<forall>n r. \<exists>e. (\<lambda>n r. Failed (AxiosError None)) n r = Failed e \<and> \<not> isHttpErrorResponse e"
    by simp
  from performRequest_transport_fault_never_returns[OF ne fault] ne fault
  show ?thesis by simp
qed

text \<open>
  A fault that passes: the first request fails without a response, the second is served.
  The call makes two attempts under the same pair, does not rotate, and returns the data.
\<close>

lemma performRequest_retries_after_transport_fault:
  assumes wf: "wf_client st"
    and first: "\<forall>r. up 0 r = Failed e" "\<not> isHttpErrorResponse e"
    and second: "\<forall>r. up 1 r = Resolved response" and "responseType \<noteq> ''stream''"
  shows "performRequest pf up st url responseType method =
     Some (Inr (resp_data response), st,
           [requestWith pf st (currentIndex st) url responseType method,
            requestWith pf st (currentIndex st) url responseType method])"
proof -
  let ?i = "currentIndex st"
  let ?r = "requestWith pf st ?i url responseType method"
  from wf have lt: "?i < length (apiKeyPairs st)" and same: "withIndex st ?i = st"
    by (simp_all add: wf_client_iff)
  from lt have ne: "apiKeyPairs st \<noteq> []" by auto
  have req: "\<And>sent. veriffAPI_request pf up st url responseType method sent =
      (up (length sent) ?r, sent @ [?r])"
    using request_withIndex[OF lt, of pf up url responseType "method"] same by simp
  have again:
    "performRequest_loop pf up url responseType method st (length (apiKeyPairs st)) [?r] =
      Some (Inr (resp_data response), st, [?r, ?r])"
    using ne second assms(5) by (subst performRequest_loop.simps) (simp add: req)
  have "performRequest_loop pf up url responseType method st (length (apiKeyPairs st)) [] =
      performRequest_loop pf up url responseType method st (length (apiKeyPairs st)) [?r]"
    using ne first by (subst performRequest_loop.simps) (simp add: req)
  with again show ?thesis by (simp add: performRequest_def)
qed

section \<open>The public operations on an exhausted pool\<close>

lemma mediaWithContentType_null [simp]: "mediaWithContentType JNull = Inr JUndefined"
  by (simp add: mediaWithContentType_def)



section \<open>The aggregator\<close>


lemma allSettled_pending: "None \<in> set ps \<Longrightarrow> allSettled ps = None"
  by (induction ps) (auto split: option.splits)


lemma getRelavantSessionData_pending:
  "c \<in> set (sessionCalls sessionId version) \<Longrightarrow> run c = None \<Longrightarrow>
   getRelavantSessionData run sessionId version = None"
proof -
  assume "c \<in> set (sessionCalls sessionId version)" "run c = None"
  then have "None \<in> set (map run (sessionCalls sessionId version))" by force
  then show ?thesis by (simp add: getRelavantSessionData_def allSettled_pending)
qed




section \<open>Webhook signatures\<close>

lemma anyDigestMatches_iff:
  "anyDigestMatches pf kps bytes sg \<longleftrightarrow>
     (\<exists>kp \<in> set kps. hmac_sha256_hex pf (sharedSecretKey kp) bytes = sg)"
  by (induction kps) auto

lemma isSignatureValid_buffer:
  "isSignatureValid pf st sg (JBuf bs) =
     Inr (anyDigestMatches pf (apiKeyPairs st) (utf8 pf (JSON_stringify pf (JBuf bs))) sg)"
  by (simp add: isSignatureValid_def stringifyIfObject_def toBuffer_def)

lemma isSignatureValid_object:
  "typeof payload = ''object'' \<Longrightarrow>
   isSignatureValid pf st sg payload =
     Inr (anyDigestMatches pf (apiKeyPairs st) (utf8 pf (JSON_stringify pf payload)) sg)"
  by (simp add: isSignatureValid_def stringifyIfObject_def toBuffer_def)

lemma isSignatureValid_string:
  "isSignatureValid pf st sg (JStr s) =
     Inr (anyDigestMatches pf (apiKeyPairs st) (utf8 pf s) sg)"
  by (simp add: isSignatureValid_def stringifyIfObject_def toBuffer_def)

text \<open>
  For a payload that is not a Buffer, the code agrees with the specification: the
  signature is accepted exactly when it is the digest of the canonical bytes under the
  secret of some pair of the pool. The cursor is not read.
\<close>

lemma isSignatureValid_matches_spec_unless_buffer:
  assumes "\<not> isBuffer payload" and "canonicalBytes_spec pf payload = Some bytes"
  shows "isSignatureValid pf st sg payload =
     Inr (\<exists>kp \<in> set (apiKeyPairs st). hmac_sha256_hex pf (sharedSecretKey kp) bytes = sg)"
  using assms
  by (cases payload)
    (auto simp: isSignatureValid_object isSignatureValid_string anyDigestMatches_iff)

lemma isSignatureValid_ignores_cursor:
  "isSignatureValid pf (st\<lparr>currentIndex := j\<rparr>) sg payload = isSignatureValid pf st sg payload"
  by (simp add: isSignatureValid_def split: sum.splits)

lemma demo_stringify_body:
  "JSON_stringify demo_platform (JObj [(''id'', JStr ''addr-123'')]) = demo_body"
  by code_simp

lemma demo_second_pair: "\<lparr>apiKey = ''k2'', sharedSecretKey = ''s2''\<rparr> \<in> set (apiKeyPairs demo_client)"
  by (simp add: demo_client_def demo_pairs_def)

lemma demo_no_collision:
  "\<forall>kp' \<in> set (apiKeyPairs demo_client).
     hmac_sha256_hex demo_platform (sharedSecretKey kp')
       (utf8 demo_platform (JSON_stringify demo_platform (JBuf (utf8 demo_platform demo_body))))
     \<noteq> hmac_sha256_hex demo_platform ''s2'' (utf8 demo_platform demo_body)"
  by code_simp

text \<open>
  C2 (the code departs from the claim): a payload that arrives as raw bytes, with the
  digest of exactly those bytes under the secret of a configured pair as its signature,
  is rejected. A Buffer has \<open>typeof\<close> \<open>'object'\<close>, so the code digests the JSON rendering
  of the Buffer object instead of its bytes; the signature is rejected unless that other
  digest happens to coincide with it.
\<close>

theorem isSignatureValid_rejects_signed_buffer:
  assumes "kp \<in> set (apiKeyPairs st)"
    and "signature = hmac_sha256_hex pf (sharedSecretKey kp) bytes"
    and "\<forall>kp' \<in> set (apiKeyPairs st).
           hmac_sha256_hex pf (sharedSecretKey kp') (utf8 pf (JSON_stringify pf (JBuf bytes)))
             \<noteq> signature"
  shows "isSignatureValid pf st signature (JBuf bytes) = Inr False"
  using assms(3) by (simp add: isSignatureValid_buffer anyDigestMatches_iff)

theorem isSignatureValid_rejects_signed_buffer_witness:
  "isSignatureValid demo_platform demo_client
     (hmac_sha256_hex demo_platform ''s2'' (utf8 demo_platform demo_body))
     (JBuf (utf8 demo_platform demo_body)) = Inr False"
  using isSignatureValid_rejects_signed_buffer[OF demo_second_pair _ demo_no_collision]
  by simp

text \<open>
  C8 (the code departs from the claim): for a structured payload whose signature is the
  digest of its stringification under the secret of a configured pair, the payload is
  accepted as an object and rejected when the UTF-8 bytes of that same stringification
  are passed as a Buffer (unless the digest of the Buffer's JSON rendering coincides).
\<close>

theorem isSignatureValid_object_and_bytes_disagree:
  assumes "typeof payload = ''object''"
    and "kp \<in> set (apiKeyPairs st)"
    and "signature =
           hmac_sha256_hex pf (sharedSecretKey kp) (utf8 pf (JSON_stringify pf payload))"
    and "\<forall>kp' \<in> set (apiKeyPairs st).
           hmac_sha256_hex pf (sharedSecretKey kp')
             (utf8 pf (JSON_stringify pf (JBuf (utf8 pf (JSON_stringify pf payload)))))
             \<noteq> signature"
  shows "isSignatureValid pf st signature payload = Inr True
     \<and> isSignatureValid pf st signature (JBuf (utf8 pf (JSON_stringify pf payload))) = Inr False"
  using assms by (auto simp: isSignatureValid_buffer isSignatureValid_object anyDigestMatches_iff)

theorem isSignatureValid_object_and_bytes_disagree_witness:
  "isSignatureValid demo_platform demo_client
     (hmac_sha256_hex demo_platform ''s2'' (utf8 demo_platform demo_body))
     (JObj [(''id'', JStr ''addr-123'')]) = Inr True
   \<and> isSignatureValid demo_platform demo_client
     (hmac_sha256_hex demo_platform ''s2'' (utf8 demo_platform demo_body))
     (JBuf (utf8 demo_platform demo_body)) = Inr False"
proof -
  have obj: "typeof (JObj [(''id'', JStr ''addr-123'')]) = ''object''" by simp
  have sg: "hmac_sha256_hex demo_platform ''s2'' (utf8 demo_platform demo_body) =
      hmac_sha256_hex demo_platform (sharedSecretKey \<lparr>apiKey = ''k2'', sharedSecretKey = ''s2''\<rparr>)
        (utf8 demo_platform (JSON_stringify demo_platform (JObj [(''id'', JStr ''addr-123'')])))"
    by (simp add: demo_stringify_body)
  from isSignatureValid_object_and_bytes_disagree[OF obj demo_second_pair sg]
    demo_no_collision
  show ?thesis by (simp add: demo_stringify_body)
qed

end
